theory Spec2Isabelle
  imports Complex_Main "HOL-Library.Sublist"
begin

section \<open>The Ration Smart API client (src/src/feed-client.ts)\<close>

text \<open>
  The client is a TypeScript class whose methods are asynchronous and talk to a backend
  through \<^verbatim>\<open>fetch\<close>. The embedding makes every effect explicit:
  \<^item> the backend is a function from the calls issued so far and the next request to the
    outcome of that request, so that it may answer the same request differently over time;
  \<^item> every method takes the state (the client object, the list of outbound calls, the
    console) and returns the new state together with its result;
  \<^item> a thrown exception or a rejected promise is the left injection of a sum;
  \<^item> \<^verbatim>\<open>Date.now()\<close> is a parameter of the two operations that read it.
\<close>

subsection \<open>JavaScript values\<close>

text \<open>
  The backend's answers are parsed JSON, and the source only casts them to its interface
  types: nothing is checked at run time. So the values read from a response are kept as
  they are at run time, together with \<^verbatim>\<open>undefined\<close>, which a read of a missing
  property gives.
\<close>

datatype jsval =
    JUndefined
  | JNull
  | JBool bool
  | JNum real
  | JStr string
  | JArr "jsval list"
  | JObj "(string \<times> jsval) list"

text \<open>What \<^verbatim>\<open>if (v)\<close>, \<^verbatim>\<open>!v\<close> and \<^verbatim>\<open>v || w\<close> test.\<close>

fun truthy :: "jsval \<Rightarrow> bool" where
  "truthy JUndefined = False"
| "truthy JNull = False"
| "truthy (JBool b) = b"
| "truthy (JNum r) = (r \<noteq> 0)"
| "truthy (JStr s) = (s \<noteq> [])"
| "truthy (JArr xs) = True"
| "truthy (JObj fs) = True"

text \<open>
  An optional or nullable string (\<^verbatim>\<open>apiKey?: string\<close>, \<^verbatim>\<open>string | null\<close>) is a
  \<open>string option\<close>; the empty string is falsy, as in the source's tests \<^verbatim>\<open>if (apiKey)\<close>.
\<close>

fun truthy_str :: "string option \<Rightarrow> bool" where
  "truthy_str None = False"
| "truthy_str (Some s) = (s \<noteq> [])"

fun str_val :: "string option \<Rightarrow> jsval" where
  "str_val None = JUndefined"
| "str_val (Some s) = JStr s"

text \<open>\<^verbatim>\<open>a || b\<close> on values.\<close>

definition js_or :: "jsval \<Rightarrow> jsval \<Rightarrow> jsval" where
  "js_or a b = (if truthy a then a else b)"

text \<open>
  Thrown values. Everything the source throws is an \<^verbatim>\<open>Error\<close> with a message; the
  transport may also reject with a value that is not an \<^verbatim>\<open>Error\<close>, which the handler
  in \<^verbatim>\<open>authenticate\<close> tells apart with \<^verbatim>\<open>instanceof\<close>.
\<close>

datatype exn = Error string | NonError jsval

text \<open>
  The property read \<^verbatim>\<open>v.k\<close>. It throws a TypeError (an \<^verbatim>\<open>Error\<close>; the wording of its
  message is the engine's) on \<^verbatim>\<open>null\<close> and \<^verbatim>\<open>undefined\<close>, and gives \<^verbatim>\<open>undefined\<close>
  for a property that is not there. Only the properties of the JSON value itself are
  modelled: none of the names the source reads is a built-in property.
\<close>

fun getProp :: "jsval \<Rightarrow> string \<Rightarrow> exn + jsval" where
  "getProp JUndefined k = Inl (Error (''Cannot read properties of undefined: '' @ k))"
| "getProp JNull k = Inl (Error (''Cannot read properties of null: '' @ k))"
| "getProp (JObj fs) k = Inr (case map_of fs k of None \<Rightarrow> JUndefined | Some v \<Rightarrow> v)"
| "getProp (JBool b) k = Inr JUndefined"
| "getProp (JNum r) k = Inr JUndefined"
| "getProp (JStr s) k = Inr JUndefined"
| "getProp (JArr xs) k = Inr JUndefined"

text \<open>The optional chain \<^verbatim>\<open>v?.k\<close>.\<close>

fun getPropOpt :: "jsval \<Rightarrow> string \<Rightarrow> jsval" where
  "getPropOpt JUndefined k = JUndefined"
| "getPropOpt JNull k = JUndefined"
| "getPropOpt v k = (case getProp v k of Inl e \<Rightarrow> JUndefined | Inr w \<Rightarrow> w)"

text \<open>Decimal rendering of a number in a template string or by \<^verbatim>\<open>toString()\<close>.\<close>

definition digit_char :: "nat \<Rightarrow> char" where
  "digit_char d = ''0123456789'' ! d"

fun string_of_nat :: "nat \<Rightarrow> string" where
  "string_of_nat n =
     (if n < 10 then [digit_char n] else string_of_nat (n div 10) @ [digit_char (n mod 10)])"

declare string_of_nat.simps [simp del]

definition string_of_int :: "int \<Rightarrow> string" where
  "string_of_int i = (if i < 0 then ''-'' @ string_of_nat (nat (- i)) else string_of_nat (nat i))"

text \<open>\<^verbatim>\<open>typeof v === 'object'\<close> and \<^verbatim>\<open>k in v\<close> (the latter only reached on objects).\<close>

fun typeof_object :: "jsval \<Rightarrow> bool" where
  "typeof_object JNull = True"
| "typeof_object (JArr xs) = True"
| "typeof_object (JObj fs) = True"
| "typeof_object v = False"

fun in_op :: "string \<Rightarrow> jsval \<Rightarrow> bool" where
  "in_op k (JObj fs) = (k \<in> set (map fst fs))"
| "in_op k (JArr xs) = (k = ''length'' \<or> k \<in> set (map string_of_nat [0..<length xs]))"
| "in_op k v = False"

subsection \<open>The interfaces of the source\<close>

record CattleInfo =
  body_weight :: real
  breed :: string
  lactating :: bool
  milk_production :: real
  days_in_milk :: real
  parity :: real
  days_of_pregnancy :: real
  tp_milk :: real
  fat_milk :: real
  temperature :: real
  topography :: string
  distance :: real
  calving_interval :: real
  bw_gain :: "real option"
  bc_score :: "real option"

record FeedWithPrice =
  feed_id :: string
  price_per_kg :: real

record FeedEvaluationItem =
  feed_id :: string
  quantity_as_fed :: real
  price_per_kg :: real

text \<open>
  The identity fields of the two requests hold what the client resolved at run time: a
  string in ApiKey mode, whatever the login response carried in EmailPin mode.
\<close>

record DietRecommendationRequest =
  simulation_id :: string
  user_id :: jsval
  cattle_info :: CattleInfo
  feed_selection :: "FeedWithPrice list"
  country_id :: jsval

record DietEvaluationRequest =
  simulation_id :: string
  user_id :: jsval
  country_id :: jsval
  currency :: jsval
  cattle_info :: CattleInfo
  feed_evaluation :: "FeedEvaluationItem list"

record SearchParams =
  country_id :: "string option"
  feed_type :: "string option"
  feed_category :: "string option"
  limit :: "int option"
  offset :: "int option"

subsection \<open>The transport\<close>

text \<open>
  A request is kept as the source builds it, before serialisation: the body is the object
  handed to \<^verbatim>\<open>JSON.stringify\<close>, the query is the list of pairs appended to the
  \<^verbatim>\<open>URLSearchParams\<close> (empty when the source adds no \<^verbatim>\<open>?\<close> part).
\<close>

datatype http_method = GET | POST

datatype payload =
    LoginBody "string option" "string option"
  | RecommendationBody DietRecommendationRequest
  | EvaluationBody DietEvaluationRequest

record request =
  url :: string
  query :: "(string \<times> string) list"
  "method" :: http_method
  headers :: "(string \<times> string) list"
  body :: "payload option"

text \<open>
  A response: \<^verbatim>\<open>json()\<close> and \<^verbatim>\<open>text()\<close> may themselves reject (a body that is not
  JSON, a broken connection).
\<close>

record response =
  ok :: bool
  status :: nat
  statusText :: string
  json :: "exn + jsval"
  text_body :: "exn + string"

datatype outcome = Rejected exn | Resolved response

type_synonym network = "request list \<Rightarrow> request \<Rightarrow> outcome"

subsection \<open>The client and the state its methods work on\<close>

record FeedFormulationClient =
  baseUrl :: string
  apiKey :: "string option"
  userEmail :: "string option"
  userPin :: "string option"
  cachedUserId :: jsval
  cachedCountryId :: jsval
  cachedCurrency :: jsval
  organizationId :: "string option"

record state =
  this :: FeedFormulationClient
  calls :: "request list"
  console :: "exn list"

definition fetch :: "network \<Rightarrow> request \<Rightarrow> state \<Rightarrow> state \<times> (exn + response)" where
  "fetch net rq s =
     (s\<lparr>calls := calls s @ [rq]\<rparr>,
      case net (calls s) rq of Rejected e \<Rightarrow> Inl e | Resolved r \<Rightarrow> Inr r)"

definition console_warn :: "exn \<Rightarrow> state \<Rightarrow> state" where
  "console_warn e s = s\<lparr>console := console s @ [e]\<rparr>"

subsection \<open>Construction\<close>

definition constructor ::
  "string \<Rightarrow> string option \<Rightarrow> string option \<Rightarrow> string option \<Rightarrow> exn + FeedFormulationClient" where
  "constructor baseUrl' apiKey' userEmail' userPin' =
     (let c = \<lparr>baseUrl = baseUrl', apiKey = None, userEmail = None, userPin = None,
                cachedUserId = JNull, cachedCountryId = JNull, cachedCurrency = JNull,
                organizationId = None\<rparr>
      in if truthy_str apiKey' then Inr (c\<lparr>apiKey := apiKey'\<rparr>)
         else if truthy_str userEmail' \<and> truthy_str userPin'
           then Inr (c\<lparr>userEmail := userEmail', userPin := userPin'\<rparr>)
         else Inl (Error ''Either API key or email+PIN must be provided''))"

definition getAuthHeaders :: "FeedFormulationClient \<Rightarrow> (string \<times> string) list" where
  "getAuthHeaders c =
     [(''Content-Type'', ''application/json'')] @
     (case apiKey c of
        None \<Rightarrow> []
      | Some k \<Rightarrow> if k \<noteq> [] then [(''Authorization'', ''Bearer '' @ k)] else [])"

subsection \<open>Authentication and the session cache\<close>

text \<open>
  The body of the \<^verbatim>\<open>try\<close> block of \<^verbatim>\<open>authenticate\<close>. The three cache fields are
  assigned one after the other, once both tests on the response have passed.
\<close>

definition login_request :: "FeedFormulationClient \<Rightarrow> request" where
  "login_request c =
     \<lparr>url = baseUrl c @ ''/auth/login'', query = [], method = POST,
      headers = [(''Content-Type'', ''application/json'')],
      body = Some (LoginBody (userEmail c) (userPin c))\<rparr>"

definition authenticate_try :: "network \<Rightarrow> state \<Rightarrow> state \<times> (exn + jsval)" where
  "authenticate_try net s =
     (case fetch net (login_request (this s)) s of
        (s1, Inl e) \<Rightarrow> (s1, Inl e)
      | (s1, Inr resp) \<Rightarrow>
          if \<not> ok resp then
            (s1, Inl (Error (''Authentication failed: '' @ string_of_nat (status resp) @ '' '' @
                             statusText resp)))
          else
            (case json resp of
               Inl e \<Rightarrow> (s1, Inl e)
             | Inr data \<Rightarrow>
                (case getProp data ''success'' of
                   Inl e \<Rightarrow> (s1, Inl e)
                 | Inr success \<Rightarrow>
                    if \<not> truthy success then (s1, Inl (Error ''Invalid authentication response''))
                    else
                      (case getProp data ''user'' of
                         Inl e \<Rightarrow> (s1, Inl e)
                       | Inr user \<Rightarrow>
                          if \<not> truthy user then
                            (s1, Inl (Error ''Invalid authentication response''))
                          else
                            (case getProp user ''id'' of
                               Inl e \<Rightarrow> (s1, Inl e)
                             | Inr uid \<Rightarrow>
                                let s2 = s1\<lparr>this := (this s1)\<lparr>cachedUserId := uid\<rparr>\<rparr> in
                                (case getProp user ''country_id'' of
                                   Inl e \<Rightarrow> (s2, Inl e)
                                 | Inr cid \<Rightarrow>
                                    let s3 = s2\<lparr>this := (this s2)\<lparr>cachedCountryId := cid\<rparr>\<rparr> in
                                    (case getProp user ''country'' of
                                       Inl e \<Rightarrow> (s3, Inl e)
                                     | Inr country \<Rightarrow>
                                        let s4 = s3\<lparr>this := (this s3)\<lparr>cachedCurrency :=
                                                   js_or (getPropOpt country ''currency'')
                                                         (JStr ''USD'')\<rparr>\<rparr>
                                        in (s4, Inr (cachedUserId (this s4))))))))))"

text \<open>The \<^verbatim>\<open>catch\<close> block: whatever was thrown is wrapped in a new \<^verbatim>\<open>Error\<close>.\<close>

definition authenticate_catch :: "exn \<Rightarrow> exn" where
  "authenticate_catch e =
     Error (''Failed to authenticate: '' @
            (case e of Error m \<Rightarrow> m | NonError v \<Rightarrow> ''Unknown error''))"

definition authenticate :: "network \<Rightarrow> state \<Rightarrow> state \<times> (exn + jsval)" where
  "authenticate net s =
     (if truthy (cachedUserId (this s)) then (s, Inr (cachedUserId (this s)))
      else if \<not> truthy_str (userEmail (this s)) \<or> \<not> truthy_str (userPin (this s)) then
        (s, Inl (Error ''Email and PIN required for authentication''))
      else
        (case authenticate_try net s of
           (s1, Inl e) \<Rightarrow> (s1, Inl (authenticate_catch e))
         | (s1, Inr uid) \<Rightarrow> (s1, Inr uid)))"

definition getUserId :: "network \<Rightarrow> state \<Rightarrow> state \<times> (exn + jsval)" where
  "getUserId net s =
     (if truthy_str (apiKey (this s)) then
        (s, Inl (Error (''User ID not available with API key authentication. '' @
                        ''Use organization context instead.'')))
      else authenticate net s)"

definition getCountryId :: "network \<Rightarrow> state \<Rightarrow> state \<times> (exn + jsval)" where
  "getCountryId net s =
     (if truthy_str (apiKey (this s)) then
        (s, Inl (Error (''Country ID not available with API key authentication. '' @
                        ''Specify country_id in requests.'')))
      else
        (case authenticate net s of
           (s1, Inl e) \<Rightarrow> (s1, Inl e)
         | (s1, Inr uid) \<Rightarrow>
             if \<not> truthy (cachedCountryId (this s1)) then
               (s1, Inl (Error ''Country ID not available''))
             else (s1, Inr (cachedCountryId (this s1)))))"

definition getCurrency :: "network \<Rightarrow> state \<Rightarrow> state \<times> (exn + jsval)" where
  "getCurrency net s =
     (if truthy_str (apiKey (this s)) then (s, Inr (JStr ''USD''))
      else
        (case authenticate net s of
           (s1, Inl e) \<Rightarrow> (s1, Inl e)
         | (s1, Inr uid) \<Rightarrow> (s1, Inr (js_or (cachedCurrency (this s1)) (JStr ''USD'')))))"

subsection \<open>Feed lookup and search\<close>

definition feed_request :: "FeedFormulationClient \<Rightarrow> string \<Rightarrow> request" where
  "feed_request c feedId =
     \<lparr>url = baseUrl c @ ''/feeds/'' @ feedId, query = [], method = GET,
      headers = getAuthHeaders c, body = None\<rparr>"

definition getFeedById :: "network \<Rightarrow> string \<Rightarrow> state \<Rightarrow> state \<times> (exn + jsval)" where
  "getFeedById net feedId s =
     (case fetch net (feed_request (this s) feedId) s of
        (s1, Inl e) \<Rightarrow> (s1, Inl e)
      | (s1, Inr resp) \<Rightarrow>
          if \<not> ok resp then
            (s1, Inl (Error (''Failed to get feed: '' @ string_of_nat (status resp))))
          else (s1, json resp))"

text \<open>\<^verbatim>\<open>if (params.k) queryParams.append('k', ...)\<close> for a string and for a number.\<close>

fun append_str :: "string \<Rightarrow> string option \<Rightarrow> (string \<times> string) list" where
  "append_str k None = []"
| "append_str k (Some v) = (if v \<noteq> [] then [(k, v)] else [])"

fun append_num :: "string \<Rightarrow> int option \<Rightarrow> (string \<times> string) list" where
  "append_num k None = []"
| "append_num k (Some n) = (if n \<noteq> 0 then [(k, string_of_int n)] else [])"

definition search_request :: "FeedFormulationClient \<Rightarrow> SearchParams \<Rightarrow> request" where
  "search_request c params =
     \<lparr>url = baseUrl c @ ''/feeds/'',
      query = append_str ''country_id'' (SearchParams.country_id params) @
              append_str ''feed_type'' (feed_type params) @
              append_str ''feed_category'' (feed_category params) @
              append_num ''limit'' (limit params) @
              append_num ''offset'' (offset params),
      method = GET, headers = getAuthHeaders c, body = None\<rparr>"

definition searchFeeds :: "network \<Rightarrow> SearchParams \<Rightarrow> state \<Rightarrow> state \<times> (exn + jsval)" where
  "searchFeeds net params s =
     (case fetch net (search_request (this s) params) s of
        (s1, Inl e) \<Rightarrow> (s1, Inl e)
      | (s1, Inr resp) \<Rightarrow>
          if \<not> ok resp then
            (s1, Inl (Error (''Failed to search feeds: '' @ string_of_nat (status resp))))
          else
            (case json resp of
               Inl e \<Rightarrow> (s1, Inl e)
             | Inr data \<Rightarrow>
                 if truthy data \<and> typeof_object data \<and> in_op ''feeds'' data
                 then (s1, getProp data ''feeds'')
                 else (s1, Inr data)))"

subsection \<open>Country detection\<close>

definition detectCountryFromFeeds :: "network \<Rightarrow> string list \<Rightarrow> state \<Rightarrow> state \<times> jsval" where
  "detectCountryFromFeeds net feedIds s =
     (case feedIds of
        [] \<Rightarrow> (s, JNull)
      | feedId # rest \<Rightarrow>
          (case getFeedById net feedId s of
             (s1, Inl e) \<Rightarrow> (console_warn e s1, JNull)
           | (s1, Inr firstFeed) \<Rightarrow>
               (case getProp firstFeed ''fd_country_id'' of
                  Inl e \<Rightarrow> (console_warn e s1, JNull)
                | Inr c \<Rightarrow> (s1, js_or c JNull))))"

definition getServiceAccountUserId :: string where
  "getServiceAccountUserId = ''00000000-0000-0000-0000-000000000000''"

subsection \<open>Diet recommendation and diet evaluation\<close>

text \<open>
  Each of the two operations first resolves the identity fields of its request (the
  \<^verbatim>\<open>if (this.apiKey) ... else ...\<close> block, given here as a function of its own), then reads
  the clock, builds the request and dispatches it. \<open>now\<close> is what \<^verbatim>\<open>Date.now()\<close> returns.
\<close>

definition country_required :: exn where
  "country_required =
     Error (''country_id is required. Either provide it explicitly '' @
            ''or ensure feeds have country_id set.'')"


definition recommendation_request ::
  "FeedFormulationClient \<Rightarrow> nat \<Rightarrow> CattleInfo \<Rightarrow> FeedWithPrice list \<Rightarrow> jsval \<Rightarrow> jsval \<Rightarrow> request" where
  "recommendation_request c now cattleInfo feedSelection userIdToUse countryIdToUse =
     \<lparr>url = baseUrl c @ ''/diet-recommendation-working/'', query = [], method = POST,
      headers = getAuthHeaders c,
      body = Some (RecommendationBody
        \<lparr>DietRecommendationRequest.simulation_id = ''sim-'' @ string_of_nat now,
         DietRecommendationRequest.user_id = userIdToUse,
         DietRecommendationRequest.cattle_info = cattleInfo,
         DietRecommendationRequest.feed_selection = feedSelection,
         DietRecommendationRequest.country_id = countryIdToUse\<rparr>)\<rparr>"


definition evaluateDiet_identity ::
  "network \<Rightarrow> FeedEvaluationItem list \<Rightarrow> string option \<Rightarrow> string option \<Rightarrow> string option \<Rightarrow>
   state \<Rightarrow> state \<times> (exn + jsval \<times> jsval \<times> jsval)" where
  "evaluateDiet_identity net feedEvaluation countryId currency' userId s =
     (if truthy_str (apiKey (this s)) then
        (case (if \<not> truthy_str countryId then
                 (case detectCountryFromFeeds net
                         (map FeedEvaluationItem.feed_id feedEvaluation) s of
                    (s1, detectedCountryId) \<Rightarrow>
                      if \<not> truthy detectedCountryId then (s1, Inl country_required)
                      else (s1, Inr detectedCountryId))
               else (s, Inr (str_val countryId))) of
           (s1, Inl e) \<Rightarrow> (s1, Inl e)
         | (s1, Inr countryIdToUse) \<Rightarrow>
             (s1, Inr (js_or (str_val userId) (JStr getServiceAccountUserId), countryIdToUse,
                       js_or (str_val currency') (JStr ''USD''))))
      else
        (case getUserId net s of
           (s1, Inl e) \<Rightarrow> (s1, Inl e)
         | (s1, Inr userIdToUse) \<Rightarrow>
             (case (if truthy_str countryId then (s1, Inr (str_val countryId))
                    else getCountryId net s1) of
                (s2, Inl e) \<Rightarrow> (s2, Inl e)
              | (s2, Inr countryIdToUse) \<Rightarrow>
                  (case (if truthy_str currency' then (s2, Inr (str_val currency'))
                         else getCurrency net s2) of
                     (s3, Inl e) \<Rightarrow> (s3, Inl e)
                   | (s3, Inr currencyToUse) \<Rightarrow>
                       (s3, Inr (userIdToUse, countryIdToUse, currencyToUse))))))"

definition evaluation_request ::
  "FeedFormulationClient \<Rightarrow> nat \<Rightarrow> CattleInfo \<Rightarrow> FeedEvaluationItem list \<Rightarrow>
   jsval \<Rightarrow> jsval \<Rightarrow> jsval \<Rightarrow> request" where
  "evaluation_request c now cattleInfo feedEvaluation userIdToUse countryIdToUse currencyToUse =
     \<lparr>url = baseUrl c @ ''/diet-evaluation-working/'', query = [], method = POST,
      headers = getAuthHeaders c,
      body = Some (EvaluationBody
        \<lparr>DietEvaluationRequest.simulation_id = ''eval-'' @ string_of_nat now,
         DietEvaluationRequest.user_id = userIdToUse,
         DietEvaluationRequest.country_id = countryIdToUse,
         DietEvaluationRequest.currency = currencyToUse,
         DietEvaluationRequest.cattle_info = cattleInfo,
         DietEvaluationRequest.feed_evaluation = feedEvaluation\<rparr>)\<rparr>"

definition evaluateDiet ::
  "network \<Rightarrow> nat \<Rightarrow> CattleInfo \<Rightarrow> FeedEvaluationItem list \<Rightarrow>
   string option \<Rightarrow> string option \<Rightarrow> string option \<Rightarrow> state \<Rightarrow> state \<times> (exn + jsval)" where
  "evaluateDiet net now cattleInfo feedEvaluation countryId currency' userId s =
     (case evaluateDiet_identity net feedEvaluation countryId currency' userId s of
        (s1, Inl e) \<Rightarrow> (s1, Inl e)
      | (s1, Inr (userIdToUse, countryIdToUse, currencyToUse)) \<Rightarrow>
          (case fetch net (evaluation_request (this s1) now cattleInfo feedEvaluation
                             userIdToUse countryIdToUse currencyToUse) s1 of
             (s2, Inl e) \<Rightarrow> (s2, Inl e)
           | (s2, Inr resp) \<Rightarrow>
               if \<not> ok resp then
                 (case text_body resp of
                    Inl e \<Rightarrow> (s2, Inl e)
                  | Inr errorText \<Rightarrow>
                      (s2, Inl (Error (''Diet evaluation failed: '' @
                                       string_of_nat (status resp) @ '' - '' @ errorText))))
               else (s2, json resp)))"

text \<open>A client as the constructor leaves it, with nothing sent and nothing logged.\<close>

definition initial :: "FeedFormulationClient \<Rightarrow> state" where
  "initial c = \<lparr>this = c, calls = [], console = []\<rparr>"

subsection \<open>Vocabulary of the specification\<close>

text \<open>
  The source has no mode field: every operation branches on \<^verbatim>\<open>if (this.apiKey)\<close>. A client
  is in ApiKey mode when that test succeeds, and in EmailPin mode when it fails and both
  the email and the PIN are set. The error names of the specification stand for the
  messages the source throws.
\<close>

definition api_key_mode :: "FeedFormulationClient \<Rightarrow> bool" where
  "api_key_mode c = truthy_str (apiKey c)"

definition email_pin_mode :: "FeedFormulationClient \<Rightarrow> bool" where
  "email_pin_mode c =
     (\<not> truthy_str (apiKey c) \<and> truthy_str (userEmail c) \<and> truthy_str (userPin c))"

definition missing_credentials :: exn where
  "missing_credentials = Error ''Either API key or email+PIN must be provided''"

definition unsupported_user_id :: exn where
  "unsupported_user_id =
     Error (''User ID not available with API key authentication. '' @
            ''Use organization context instead.'')"

definition unsupported_country_id :: exn where
  "unsupported_country_id =
     Error (''Country ID not available with API key authentication. '' @
            ''Specify country_id in requests.'')"

text \<open>
  The three cache fields as a successful login writes them, from the \<^verbatim>\<open>user\<close> object of
  the response (the reads are those of \<open>authenticate_try\<close>, which cannot throw on a truthy
  \<^verbatim>\<open>user\<close>).
\<close>

definition login_cache :: "jsval \<Rightarrow> FeedFormulationClient \<Rightarrow> FeedFormulationClient" where
  "login_cache user c =
     c\<lparr>cachedUserId := getPropOpt user ''id'',
       cachedCountryId := getPropOpt user ''country_id'',
       cachedCurrency :=
         js_or (getPropOpt (getPropOpt user ''country'') ''currency'') (JStr ''USD'')\<rparr>"

text \<open>
  The user ids of the diet requests in a list of outbound calls, in order; a login or a
  feed lookup carries none. \<open>carries_user_id s out u\<close> says of the outcome \<open>out\<close> of an
  operation started in \<open>s\<close> that it dispatched one diet request, with user id \<open>u\<close>, or that
  it dispatched none and failed.
\<close>

definition request_user_id :: "request \<Rightarrow> jsval option" where
  "request_user_id rq =
     (case body rq of
        Some (RecommendationBody r) \<Rightarrow> Some (DietRecommendationRequest.user_id r)
      | Some (EvaluationBody r) \<Rightarrow> Some (DietEvaluationRequest.user_id r)
      | Some (LoginBody e p) \<Rightarrow> None
      | None \<Rightarrow> None)"



subsection \<open>Example clients and backends\<close>

definition example_api_client :: FeedFormulationClient where
  "example_api_client =
     \<lparr>baseUrl = ''http://test-api.com'', apiKey = Some ''test-api-key'', userEmail = None,
      userPin = None, cachedUserId = JNull, cachedCountryId = JNull, cachedCurrency = JNull,
      organizationId = None\<rparr>"

definition example_pin_client :: FeedFormulationClient where
  "example_pin_client =
     \<lparr>baseUrl = ''http://test-api.com'', apiKey = None, userEmail = Some ''farmer@example.org'',
      userPin = Some ''1234'', cachedUserId = JNull, cachedCountryId = JNull,
      cachedCurrency = JNull, organizationId = None\<rparr>"

definition example_cattle :: CattleInfo where
  "example_cattle =
     \<lparr>body_weight = 600, breed = ''Holstein'', lactating = True, milk_production = 25,
      days_in_milk = 100, parity = 2, days_of_pregnancy = 0, tp_milk = 3.2, fat_milk = 3.8,
      temperature = 20, topography = ''Flat'', distance = 1, calving_interval = 370,
      bw_gain = None, bc_score = None\<rparr>"

definition example_item :: FeedEvaluationItem where
  "example_item = \<lparr>feed_id = ''f1'', quantity_as_fed = 10, price_per_kg = 2.5\<rparr>"

definition json_response :: "jsval \<Rightarrow> response" where
  "json_response v =
     \<lparr>ok = True, status = 200, statusText = ''OK'', json = Inr v, text_body = Inr []\<rparr>"

definition error_response :: "nat \<Rightarrow> string \<Rightarrow> response" where
  "error_response code reason =
     \<lparr>ok = False, status = code, statusText = reason,
      json = Inl (Error ''Unexpected end of JSON input''), text_body = Inr []\<rparr>"

definition always :: "outcome \<Rightarrow> network" where
  "always out history rq = out"

definition example_feed :: jsval where
  "example_feed = JObj [(''feed_id'', JStr ''f1''), (''fd_country_id'', JStr ''country-123'')]"

definition blank_feed :: jsval where
  "blank_feed = JObj [(''feed_id'', JStr ''f1''), (''fd_country_id'', JStr [])]"

definition example_login :: jsval where
  "example_login =
     JObj [(''success'', JBool True),
           (''user'', JObj [(''id'', JStr ''user-1''), (''country_id'', JStr ''country-123'')])]"

definition blank_login :: jsval where
  "blank_login =
     JObj [(''success'', JBool True),
           (''user'', JObj [(''id'', JStr []), (''country_id'', JStr ''country-123'')])]"

definition example_report :: jsval where
  "example_report =
     JObj [(''simulation_id'', JStr ''eval-123''), (''report_id'', JStr ''report-123'')]"

definition example_backend :: network where
  "example_backend history rq =
     (if url rq = ''http://test-api.com/feeds/f1'' then Resolved (json_response example_feed)
      else if url rq = ''http://test-api.com/auth/login'' then
        Resolved (json_response example_login)
      else if url rq = ''http://test-api.com/diet-evaluation-working/'' then
        Resolved (json_response example_report)
      else Resolved (error_response 404 ''Not Found''))"

section \<open>Properties\<close>

subsection \<open>Construction\<close>

text \<open>
  C10. An empty-string API key is treated exactly as an absent one, and so are an
  empty-string email and an empty-string PIN: the constructor gives the same result. With
  an empty API key and no complete email+PIN pair the constructor throws the
  missing-credentials error; with an empty API key and a non-empty email and PIN it builds
  a client in EmailPin mode, not in ApiKey mode.
\<close>

theorem empty_credential_is_absent:
  "constructor base (Some []) e p = constructor base None e p
   \<and> constructor base k (Some []) p = constructor base k None p
   \<and> constructor base k e (Some []) = constructor base k e None
   \<and> (\<not> (truthy_str e \<and> truthy_str p) \<longrightarrow>
        constructor base (Some []) e p = Inl missing_credentials)
   \<and> (em \<noteq> [] \<and> pin \<noteq> [] \<longrightarrow>
        (\<exists>c. constructor base (Some []) (Some em) (Some pin) = Inr c \<and> email_pin_mode c
             \<and> \<not> api_key_mode c \<and> apiKey c = None \<and> userEmail c = Some em
             \<and> userPin c = Some pin))"
  by (auto simp: constructor_def missing_credentials_def email_pin_mode_def api_key_mode_def
        Let_def)

theorem empty_credential_is_absent_witness:
  "constructor ''http://api'' (Some []) None (Some ''1234'') = Inl missing_credentials
   \<and> (\<exists>c. constructor ''http://api'' (Some []) (Some ''a@b.org'') (Some ''1234'') = Inr c
          \<and> email_pin_mode c \<and> \<not> api_key_mode c)"
proof -
  have a: "\<not> (truthy_str None \<and> truthy_str (Some ''1234''))" by simp
  have b: "''a@b.org'' \<noteq> [] \<and> ''1234'' \<noteq> []" by simp
  from a b empty_credential_is_absent
    [of "''http://api''" None "Some ''1234''" None "''a@b.org''" "''1234''"]
  show ?thesis by blast
qed

text \<open>
  C2. An API key, an email or a PIN is supplied when the argument is a non-empty string,
  the test the constructor itself makes (an empty string is no credential). A client built
  with neither an API key nor a complete email+PIN pair fails with the missing-credentials
  error. A client built with an API key is in ApiKey mode, whatever email and PIN come
  with it: only the API key is stored, so exactly one mode is populated, and on any state
  of that client getUserId and getCountryId reject without a call instead of logging in.
  Without an API key, an email and a PIN give a client in EmailPin mode that stores no API
  key.
\<close>

theorem credential_resolution:
  "(\<not> truthy_str k \<and> \<not> (truthy_str e \<and> truthy_str p) \<longrightarrow>
      constructor base k e p = Inl missing_credentials)
   \<and> (truthy_str k \<longrightarrow>
        (\<exists>c. constructor base k e p = Inr c \<and> api_key_mode c \<and> \<not> email_pin_mode c
             \<and> apiKey c = k \<and> userEmail c = None \<and> userPin c = None
             \<and> (\<forall>net s. this s = c \<longrightarrow>
                   getUserId net s = (s, Inl unsupported_user_id)
                   \<and> getCountryId net s = (s, Inl unsupported_country_id))))
   \<and> (\<not> truthy_str k \<and> truthy_str e \<and> truthy_str p \<longrightarrow>
        (\<exists>c. constructor base k e p = Inr c \<and> email_pin_mode c \<and> \<not> api_key_mode c
             \<and> apiKey c = None \<and> userEmail c = e \<and> userPin c = p))"
  by (auto simp: constructor_def missing_credentials_def email_pin_mode_def api_key_mode_def
        Let_def getUserId_def getCountryId_def unsupported_user_id_def
        unsupported_country_id_def)

theorem credential_resolution_witness:
  "constructor ''http://test-api.com'' None (Some ''farmer@example.org'') None =
     Inl missing_credentials
   \<and> constructor ''http://test-api.com'' (Some ''test-api-key'') (Some ''farmer@example.org'')
        (Some ''1234'') = Inr example_api_client
   \<and> getUserId example_backend (initial example_api_client) =
        (initial example_api_client, Inl unsupported_user_id)
   \<and> constructor ''http://test-api.com'' None (Some ''farmer@example.org'') (Some ''1234'') =
        Inr example_pin_client"
proof -
  have a: "\<not> truthy_str None \<and> \<not> (truthy_str (Some ''farmer@example.org'') \<and> truthy_str None)"
    by simp
  have b: "truthy_str (Some ''test-api-key'')" by simp
  have c: "\<not> truthy_str None \<and> truthy_str (Some ''farmer@example.org'') \<and> truthy_str (Some ''1234'')"
    by simp
  have api: "constructor ''http://test-api.com'' (Some ''test-api-key'')
               (Some ''farmer@example.org'') (Some ''1234'') = Inr example_api_client"
    by (simp add: constructor_def example_api_client_def)
  have pin: "constructor ''http://test-api.com'' None (Some ''farmer@example.org'')
               (Some ''1234'') = Inr example_pin_client"
    by (simp add: constructor_def example_pin_client_def)
  have t: "this (initial example_api_client) = example_api_client" by (simp add: initial_def)
  from credential_resolution
    [of None "Some ''farmer@example.org''" None "''http://test-api.com''"] a
  have 1: "constructor ''http://test-api.com'' None (Some ''farmer@example.org'') None =
     Inl missing_credentials" by blast
  from credential_resolution
    [of "Some ''test-api-key''" "Some ''farmer@example.org''" "Some ''1234''"
        "''http://test-api.com''"] b api t
  have 2: "getUserId example_backend (initial example_api_client) =
        (initial example_api_client, Inl unsupported_user_id)" by auto
  from 1 2 api pin show ?thesis by simp
qed

subsection \<open>Identity accessors in ApiKey mode\<close>

text \<open>
  C7. On an ApiKey-mode client getUserId and getCountryId fail at once with the
  unsupported-operation errors and getCurrency returns \<^verbatim>\<open>"USD"\<close>; the state, and with it
  the list of outbound calls, is unchanged in all three.
\<close>

theorem api_key_accessors:
  assumes "api_key_mode (this s)"
  shows "getUserId net s = (s, Inl unsupported_user_id)
       \<and> getCountryId net s = (s, Inl unsupported_country_id)
       \<and> getCurrency net s = (s, Inr (JStr ''USD''))"
  using assms
  by (simp add: api_key_mode_def getUserId_def getCountryId_def getCurrency_def
      unsupported_user_id_def unsupported_country_id_def)

theorem api_key_accessors_witness:
  "getUserId example_backend (initial example_api_client) =
     (initial example_api_client, Inl unsupported_user_id)
   \<and> getCountryId example_backend (initial example_api_client) =
     (initial example_api_client, Inl unsupported_country_id)
   \<and> getCurrency example_backend (initial example_api_client) =
     (initial example_api_client, Inr (JStr ''USD''))"
proof -
  have "api_key_mode (this (initial example_api_client))"
    by (simp add: api_key_mode_def initial_def example_api_client_def)
  from api_key_accessors [OF this] show ?thesis .
qed

subsection \<open>Authentication\<close>

lemma getProp_truthy: "truthy v \<Longrightarrow> getProp v k = Inr (getPropOpt v k)"
  by (cases v) simp_all

lemma getProp_Inr: "getProp v k = Inr w \<Longrightarrow> getPropOpt v k = w"
  by (cases v) auto

lemma authenticate_try_state:
  "calls (fst (authenticate_try net s)) = calls s @ [login_request (this s)]
   \<and> console (fst (authenticate_try net s)) = console s"
  by (simp add: authenticate_try_def fetch_def Let_def split: outcome.splits sum.splits)

lemma authenticate_try_failure:
  "snd (authenticate_try net s) = Inl e \<Longrightarrow> this (fst (authenticate_try net s)) = this s"
  by (auto simp: authenticate_try_def fetch_def Let_def getProp_truthy
      split: outcome.splits sum.splits if_splits)

lemma authenticate_try_success:
  assumes "authenticate_try net s = (s1, Inr uid)"
  shows "\<exists>resp data user.
           net (calls s) (login_request (this s)) = Resolved resp \<and> ok resp
           \<and> json resp = Inr data \<and> truthy (getPropOpt data ''success'')
           \<and> user = getPropOpt data ''user'' \<and> truthy user
           \<and> uid = getPropOpt user ''id''
           \<and> s1 = s\<lparr>calls := calls s @ [login_request (this s)],
                    this := login_cache user (this s)\<rparr>"
  using assms
  apply (simp add: authenticate_try_def fetch_def Let_def
      split: outcome.splits sum.splits if_splits)
  apply (auto simp: getProp_truthy login_cache_def dest!: getProp_Inr)
  done

lemma authenticate_cached:
  "truthy (cachedUserId (this s)) \<Longrightarrow>
   authenticate net s = (s, Inr (cachedUserId (this s)))"
  by (simp add: authenticate_def)

lemma authenticate_miss:
  assumes "\<not> truthy (cachedUserId (this s))"
      and "truthy_str (userEmail (this s))" and "truthy_str (userPin (this s))"
  shows "authenticate net s =
           (case authenticate_try net s of
              (s1, Inl e) \<Rightarrow> (s1, Inl (authenticate_catch e))
            | (s1, Inr uid) \<Rightarrow> (s1, Inr uid))"
  using assms by (simp add: authenticate_def)

lemma authenticate_failure:
  assumes "snd (authenticate net s) = Inl e"
  shows "this (fst (authenticate net s)) = this s \<and> \<not> truthy (cachedUserId (this s))"
proof (cases "truthy (cachedUserId (this s)) \<or> \<not> truthy_str (userEmail (this s))
              \<or> \<not> truthy_str (userPin (this s))")
  case True
  with assms show ?thesis by (auto simp: authenticate_def)
next
  case False
  obtain s1 r where t: "authenticate_try net s = (s1, r)" by (cases "authenticate_try net s")
  with assms False obtain e' where "r = Inl e'"
    by (cases r) (auto simp: authenticate_def)
  with t authenticate_try_failure [of net s e'] have "this s1 = this s" by simp
  with t False show ?thesis by (auto simp: authenticate_def split: sum.splits)
qed

text \<open>
  C3 (as amended). On an EmailPin-mode client whose cache holds no user id, a call of
  authenticate that succeeds has sent exactly one login request; it has stored the user
  id, the country id and the currency of the response in the cache (the currency is
  \<^verbatim>\<open>"USD"\<close> when the response has none) and returns the user id. When that user id is
  non-empty, every later call of authenticate on this client, whatever the backend, returns
  it and leaves the state, hence the list of outbound calls, unchanged.
\<close>

theorem login_once_after_success:
  assumes mode: "email_pin_mode (this s)"
      and miss: "\<not> truthy (cachedUserId (this s))"
      and first: "authenticate net s = (s1, Inr uid)"
  shows "\<exists>resp data user.
           net (calls s) (login_request (this s)) = Resolved resp \<and> json resp = Inr data
           \<and> user = getPropOpt data ''user''
           \<and> calls s1 = calls s @ [login_request (this s)]
           \<and> uid = getPropOpt user ''id''
           \<and> cachedUserId (this s1) = uid
           \<and> cachedCountryId (this s1) = getPropOpt user ''country_id''
           \<and> cachedCurrency (this s1) =
               (if truthy (getPropOpt (getPropOpt user ''country'') ''currency'')
                then getPropOpt (getPropOpt user ''country'') ''currency'' else JStr ''USD'')
           \<and> (truthy uid \<longrightarrow>
                (\<forall>net' s2. this s2 = this s1 \<longrightarrow> authenticate net' s2 = (s2, Inr uid)))"
proof -
  from mode have cred: "truthy_str (userEmail (this s))" "truthy_str (userPin (this s))"
    by (simp_all add: email_pin_mode_def)
  from first authenticate_miss [OF miss cred, of net]
  have "authenticate_try net s = (s1, Inr uid)"
    by (auto split: prod.splits sum.splits)
  from authenticate_try_success [OF this] obtain resp data user where
    r: "net (calls s) (login_request (this s)) = Resolved resp" "json resp = Inr data"
       "user = getPropOpt data ''user''" "uid = getPropOpt user ''id''"
       "s1 = s\<lparr>calls := calls s @ [login_request (this s)],
                this := login_cache user (this s)\<rparr>"
    by blast
  from r(5) have c: "calls s1 = calls s @ [login_request (this s)]"
    and u: "cachedUserId (this s1) = getPropOpt user ''id''"
    and ci: "cachedCountryId (this s1) = getPropOpt user ''country_id''"
    and cu: "cachedCurrency (this s1) =
               (if truthy (getPropOpt (getPropOpt user ''country'') ''currency'')
                then getPropOpt (getPropOpt user ''country'') ''currency'' else JStr ''USD'')"
    by (simp_all add: login_cache_def js_or_def)
  have later: "truthy uid \<longrightarrow>
          (\<forall>net' s2. this s2 = this s1 \<longrightarrow> authenticate net' s2 = (s2, Inr uid))"
    using u r(4) authenticate_cached by auto
  from r(1,2,3,4) c u ci cu later show ?thesis by blast
qed

theorem login_once_after_success_witness:
  "authenticate example_backend (initial example_pin_client) =
     (\<lparr>this = login_cache (getPropOpt example_login ''user'') example_pin_client,
       calls = [login_request example_pin_client], console = []\<rparr>, Inr (JStr ''user-1''))
   \<and> cachedCurrency (login_cache (getPropOpt example_login ''user'') example_pin_client) =
       JStr ''USD''
   \<and> authenticate (always (Rejected (Error ''offline'')))
       \<lparr>this = login_cache (getPropOpt example_login ''user'') example_pin_client,
        calls = [login_request example_pin_client], console = []\<rparr> =
     (\<lparr>this = login_cache (getPropOpt example_login ''user'') example_pin_client,
       calls = [login_request example_pin_client], console = []\<rparr>, Inr (JStr ''user-1''))"
proof -
  let ?s1 = "\<lparr>this = login_cache (getPropOpt example_login ''user'') example_pin_client,
       calls = [login_request example_pin_client], console = []\<rparr>"
  have mode: "email_pin_mode (this (initial example_pin_client))"
    by (simp add: email_pin_mode_def initial_def example_pin_client_def)
  have miss: "\<not> truthy (cachedUserId (this (initial example_pin_client)))"
    by (simp add: initial_def example_pin_client_def)
  have first: "authenticate example_backend (initial example_pin_client) = (?s1, Inr (JStr ''user-1''))"
    by (simp add: example_pin_client_def authenticate_def authenticate_try_def fetch_def
        initial_def login_request_def example_backend_def json_response_def example_login_def
        Let_def js_or_def login_cache_def)
  have cur: "cachedCurrency (login_cache (getPropOpt example_login ''user'') example_pin_client) =
       JStr ''USD''"
    by (simp add: login_cache_def example_login_def js_or_def)
  from login_once_after_success [OF mode miss first]
  have "\<forall>net' s2. this s2 = this ?s1 \<longrightarrow> authenticate net' s2 = (s2, Inr (JStr ''user-1''))"
    by auto
  then have "authenticate (always (Rejected (Error ''offline''))) ?s1 =
               (?s1, Inr (JStr ''user-1''))"
    by blast
  with first cur show ?thesis by simp
qed

text \<open>
  C3, as stated, fails in two ways. A login that the backend refuses is tried again by the
  next call, so two calls of authenticate on one client send two login requests. And a
  login that succeeds with the user id \<^verbatim>\<open>""\<close> leaves a cache that the test
  \<^verbatim>\<open>if (this.cachedUserId)\<close> takes for empty, so the second call logs in again.
\<close>

theorem login_once_counterexample:
  "calls (fst (authenticate (always (Resolved (error_response 401 ''Unauthorized'')))
                 (fst (authenticate (always (Resolved (error_response 401 ''Unauthorized'')))
                         (initial example_pin_client))))) =
     [login_request example_pin_client, login_request example_pin_client]
   \<and> snd (authenticate (always (Resolved (json_response blank_login)))
            (initial example_pin_client)) = Inr (JStr [])
   \<and> calls (fst (authenticate (always (Resolved (json_response blank_login)))
                 (fst (authenticate (always (Resolved (json_response blank_login)))
                         (initial example_pin_client))))) =
     [login_request example_pin_client, login_request example_pin_client]"
  by (simp add: example_pin_client_def authenticate_def authenticate_try_def fetch_def
      initial_def login_request_def always_def json_response_def error_response_def
      blank_login_def Let_def js_or_def)

text \<open>
  C9. When authenticate fails, whatever the reason, the client object is as it was before
  the call: none of the three cache fields is written. The cache then holds no user id, so
  on an EmailPin-mode client the next call of authenticate sends a login request again.
\<close>

theorem failed_login_leaves_cache:
  assumes "authenticate net s = (s1, Inl e)"
  shows "this s1 = this s
       \<and> cachedUserId (this s1) = cachedUserId (this s)
       \<and> cachedCountryId (this s1) = cachedCountryId (this s)
       \<and> cachedCurrency (this s1) = cachedCurrency (this s)
       \<and> (email_pin_mode (this s) \<longrightarrow>
            (\<forall>net'. calls (fst (authenticate net' s1)) = calls s1 @ [login_request (this s)]))"
proof -
  from assms authenticate_failure [of net s e]
  have same: "this s1 = this s" and miss: "\<not> truthy (cachedUserId (this s))" by simp_all
  have "calls (fst (authenticate net' s1)) = calls s1 @ [login_request (this s)]"
    if "email_pin_mode (this s)" for net'
  proof -
    from that same miss have "\<not> truthy (cachedUserId (this s1))"
      "truthy_str (userEmail (this s1))" "truthy_str (userPin (this s1))"
      by (simp_all add: email_pin_mode_def)
    from authenticate_miss [OF this, of net'] authenticate_try_state [of net' s1] same
    show ?thesis by (auto split: prod.splits sum.splits)
  qed
  with same show ?thesis by simp
qed

theorem failed_login_leaves_cache_witness:
  "authenticate (always (Resolved (error_response 401 ''Unauthorized'')))
     (initial example_pin_client) =
     (\<lparr>this = example_pin_client, calls = [login_request example_pin_client], console = []\<rparr>,
      Inl (Error ''Failed to authenticate: Authentication failed: 401 Unauthorized''))
   \<and> calls (fst (authenticate example_backend
        \<lparr>this = example_pin_client, calls = [login_request example_pin_client], console = []\<rparr>)) =
       [login_request example_pin_client, login_request example_pin_client]"
proof -
  let ?s1 = "\<lparr>this = example_pin_client, calls = [login_request example_pin_client], console = []\<rparr>"
  have n: "string_of_nat 401 = ''401''"
    by (simp add: string_of_nat.simps digit_char_def)
  have run: "authenticate (always (Resolved (error_response 401 ''Unauthorized'')))
     (initial example_pin_client) =
     (?s1, Inl (Error ''Failed to authenticate: Authentication failed: 401 Unauthorized''))"
    by (simp add: example_pin_client_def authenticate_def authenticate_try_def fetch_def
        initial_def login_request_def always_def error_response_def authenticate_catch_def n)
  have mode: "email_pin_mode (this (initial example_pin_client))"
    by (simp add: email_pin_mode_def initial_def example_pin_client_def)
  have "this (initial example_pin_client) = example_pin_client" by (simp add: initial_def)
  with failed_login_leaves_cache [OF run] mode run show ?thesis by simp
qed

subsection \<open>Feed lookup\<close>

lemma getFeedById_state:
  "fst (getFeedById net feedId s) = s\<lparr>calls := calls s @ [feed_request (this s) feedId]\<rparr>"
  by (simp add: getFeedById_def fetch_def split: outcome.splits)

text \<open>
  C8. When the backend answers the lookup of a feed with a status that is not a success,
  getFeedById throws: its result is an error, whose message contains the word
  \<^verbatim>\<open>feed\<close> and the decimal digits of the status code.
\<close>

theorem feed_lookup_failure:
  assumes "net (calls s) (feed_request (this s) feedId) = Resolved resp" and "\<not> ok resp"
  shows "\<exists>msg. snd (getFeedById net feedId s) = Inl (Error msg)
           \<and> sublist ''feed'' msg \<and> sublist (string_of_nat (status resp)) msg"
proof -
  let ?msg = "''Failed to get feed: '' @ string_of_nat (status resp)"
  from assms have "snd (getFeedById net feedId s) = Inl (Error ?msg)"
    by (simp add: getFeedById_def fetch_def)
  moreover have "?msg = ''Failed to get '' @ ''feed'' @ ('': '' @ string_of_nat (status resp))"
    by simp
  then have "sublist ''feed'' ?msg" unfolding sublist_def by blast
  moreover have "sublist (string_of_nat (status resp)) ?msg"
    unfolding sublist_def by (intro exI [of _ "''Failed to get feed: ''"] exI [of _ "[]"]) simp
  ultimately show ?thesis by blast
qed

theorem feed_lookup_failure_witness:
  "\<exists>msg. snd (getFeedById (always (Resolved (error_response 404 ''Not Found''))) ''invalid''
               (initial example_api_client)) = Inl (Error msg)
         \<and> sublist ''feed'' msg \<and> sublist ''404'' msg"
proof -
  have n: "string_of_nat 404 = ''404''"
    by (simp add: string_of_nat.simps digit_char_def)
  have a: "always (Resolved (error_response 404 ''Not Found''))
             (calls (initial example_api_client))
             (feed_request (this (initial example_api_client)) ''invalid'') =
           Resolved (error_response 404 ''Not Found'')"
    by (simp add: always_def)
  have b: "\<not> ok (error_response 404 ''Not Found'')" by (simp add: error_response_def)
  have c: "status (error_response 404 ''Not Found'') = 404" by (simp add: error_response_def)
  from feed_lookup_failure
    [where net = "always (Resolved (error_response 404 ''Not Found''))"
       and s = "initial example_api_client" and feedId = "''invalid''", OF a b] n c
  show ?thesis by simp
qed

subsection \<open>Search\<close>

lemma digit_char_digit: "d < 10 \<Longrightarrow> digit_char d \<in> set ''0123456789''"
  unfolding digit_char_def using nth_mem [of d "''0123456789''"] by simp

lemma string_of_nat_digits: "set (string_of_nat n) \<subseteq> set ''0123456789''"
proof (induction n rule: string_of_nat.induct)
  case (1 n)
  show ?case
  proof (cases "n < 10")
    case True
    then show ?thesis using digit_char_digit [of n] by (subst string_of_nat.simps) simp
  next
    case False
    have "n mod 10 < 10" by simp
    from digit_char_digit [OF this] 1 [OF False] False show ?thesis
      by (subst string_of_nat.simps) simp
  qed
qed

lemma feeds_not_number: "string_of_nat n \<noteq> ''feeds''"
proof
  assume "string_of_nat n = ''feeds''"
  with string_of_nat_digits [of n] show False by simp
qed

lemma feeds_not_in_array: "\<not> in_op ''feeds'' (JArr xs)"
  using feeds_not_number by (auto dest: sym)

text \<open>
  C6. Take a successful search whose response is an envelope object with a
  \<^verbatim>\<open>feeds\<close> list, and the same search answered with that list as a bare array. Both
  return the list, and both leave the same state: the caller cannot tell them apart.
\<close>

theorem search_shapes_agree:
  assumes "net (calls s) (search_request (this s) params) = Resolved r1"
      and "net' (calls s) (search_request (this s) params) = Resolved r2"
      and "ok r1" and "ok r2"
      and "json r1 = Inr (JObj props)" and "map_of props ''feeds'' = Some (JArr feeds)"
      and "json r2 = Inr (JArr feeds)"
  shows "searchFeeds net params s =
           (s\<lparr>calls := calls s @ [search_request (this s) params]\<rparr>, Inr (JArr feeds))
       \<and> searchFeeds net' params s = searchFeeds net params s"
proof -
  from assms(6) have "''feeds'' \<in> set (map fst props)"
    by (metis map_of_eq_None_iff option.distinct(1) set_map)
  with assms have 1: "searchFeeds net params s =
      (s\<lparr>calls := calls s @ [search_request (this s) params]\<rparr>, Inr (JArr feeds))"
    by (simp add: searchFeeds_def fetch_def)
  from assms feeds_not_in_array [of feeds]
  have "searchFeeds net' params s =
      (s\<lparr>calls := calls s @ [search_request (this s) params]\<rparr>, Inr (JArr feeds))"
    by (simp add: searchFeeds_def fetch_def del: in_op.simps)
  with 1 show ?thesis by simp
qed

theorem search_shapes_agree_witness:
  "searchFeeds (always (Resolved (json_response
       (JObj [(''total'', JNum 1), (''feeds'', JArr [example_feed])]))))
     \<lparr>country_id = Some ''country-123'', feed_type = Some ''Forage'', feed_category = None,
      limit = Some 10, offset = None\<rparr> (initial example_api_client) =
   searchFeeds (always (Resolved (json_response (JArr [example_feed]))))
     \<lparr>country_id = Some ''country-123'', feed_type = Some ''Forage'', feed_category = None,
      limit = Some 10, offset = None\<rparr> (initial example_api_client)
   \<and> snd (searchFeeds (always (Resolved (json_response (JArr [example_feed]))))
     \<lparr>country_id = Some ''country-123'', feed_type = Some ''Forage'', feed_category = None,
      limit = Some 10, offset = None\<rparr> (initial example_api_client)) =
     Inr (JArr [example_feed])"
proof -
  let ?p = "\<lparr>country_id = Some ''country-123'', feed_type = Some ''Forage'',
             feed_category = None, limit = Some 10, offset = None\<rparr>"
  let ?env = "json_response (JObj [(''total'', JNum 1), (''feeds'', JArr [example_feed])])"
  let ?arr = "json_response (JArr [example_feed])"
  have a: "always (Resolved ?env) (calls (initial example_api_client))
             (search_request (this (initial example_api_client)) ?p) = Resolved ?env"
    by (simp add: always_def)
  have b: "always (Resolved ?arr) (calls (initial example_api_client))
             (search_request (this (initial example_api_client)) ?p) = Resolved ?arr"
    by (simp add: always_def)
  have c: "ok ?env" "ok ?arr" by (simp_all add: json_response_def)
  have d: "json ?env = Inr (JObj [(''total'', JNum 1), (''feeds'', JArr [example_feed])])"
    by (simp add: json_response_def)
  have e: "map_of [(''total'', JNum 1), (''feeds'', JArr [example_feed])] ''feeds'' =
             Some (JArr [example_feed])" by simp
  have f: "json ?arr = Inr (JArr [example_feed])" by (simp add: json_response_def)
  from search_shapes_agree
    [where net = "always (Resolved ?env)" and net' = "always (Resolved ?arr)"
       and s = "initial example_api_client" and params = ?p, OF a b c d e f]
  show ?thesis by simp
qed

subsection \<open>Country detection\<close>

lemma detect_state:
  "calls (fst (detectCountryFromFeeds net (feedId # rest) s)) =
     calls s @ [feed_request (this s) feedId]
   \<and> this (fst (detectCountryFromFeeds net (feedId # rest) s)) = this s"
proof -
  obtain s1 r where g: "getFeedById net feedId s = (s1, r)" by (cases "getFeedById net feedId s")
  with getFeedById_state [of net feedId s]
  have s1: "s1 = s\<lparr>calls := calls s @ [feed_request (this s) feedId]\<rparr>" by simp
  show ?thesis using g s1
    by (simp add: detectCountryFromFeeds_def console_warn_def split: sum.splits)
qed

text \<open>
  C4 (as amended). In every client mode: on the empty list detection returns null and
  leaves the state, hence the list of outbound calls, unchanged. On a non-empty list its
  only outbound call is the lookup of the first feed id. When the lookup returns a record,
  detection returns the record's \<^verbatim>\<open>fd_country_id\<close> if that value is truthy (a non-empty
  string), and null otherwise: when the field is absent and also when it is the empty
  string. When the lookup fails (the transport rejects, the status is not a success, the
  body is not JSON) or the read of the record throws, detection returns null and logs the
  error on the console. It never throws.
\<close>

theorem detection:
  "detectCountryFromFeeds net [] s = (s, JNull)
   \<and> calls (fst (detectCountryFromFeeds net (feedId # rest) s)) =
       calls s @ [feed_request (this s) feedId]
   \<and> (getFeedById net feedId s = (s1, Inr feed) \<and> getProp feed ''fd_country_id'' = Inr c \<longrightarrow>
         detectCountryFromFeeds net (feedId # rest) s = (s1, if truthy c then c else JNull))
   \<and> (getFeedById net feedId s = (s1, Inr (JObj props)) \<and> map_of props ''fd_country_id'' = None \<longrightarrow>
         detectCountryFromFeeds net (feedId # rest) s = (s1, JNull))
   \<and> (getFeedById net feedId s = (s1, Inl e)
        \<or> getFeedById net feedId s = (s1, Inr feed) \<and> getProp feed ''fd_country_id'' = Inl e \<longrightarrow>
         detectCountryFromFeeds net (feedId # rest) s =
           (s1\<lparr>console := console s1 @ [e]\<rparr>, JNull))"
  using detect_state [of net feedId rest s]
  by (auto simp: detectCountryFromFeeds_def js_or_def console_warn_def)

theorem detection_witness:
  "detectCountryFromFeeds example_backend [''f1'', ''f2''] (initial example_api_client) =
     (\<lparr>this = example_api_client, calls = [feed_request example_api_client ''f1''],
       console = []\<rparr>, JStr ''country-123'')
   \<and> detectCountryFromFeeds example_backend [''missing''] (initial example_pin_client) =
     (\<lparr>this = example_pin_client, calls = [feed_request example_pin_client ''missing''],
       console = [Error ''Failed to get feed: 404'']\<rparr>, JNull)"
proof -
  have n: "string_of_nat 404 = ''404''"
    by (simp add: string_of_nat.simps digit_char_def)
  have a: "getFeedById example_backend ''f1'' (initial example_api_client) =
     (\<lparr>this = example_api_client, calls = [feed_request example_api_client ''f1''],
       console = []\<rparr>, Inr example_feed)"
    by (simp add: getFeedById_def fetch_def initial_def feed_request_def example_backend_def
        example_api_client_def json_response_def)
  have b: "getProp example_feed ''fd_country_id'' = Inr (JStr ''country-123'')"
    by (simp add: example_feed_def)
  have c: "getFeedById example_backend ''missing'' (initial example_pin_client) =
     (\<lparr>this = example_pin_client, calls = [feed_request example_pin_client ''missing''],
       console = []\<rparr>, Inl (Error ''Failed to get feed: 404''))"
    by (simp add: getFeedById_def fetch_def initial_def feed_request_def example_backend_def
        example_pin_client_def error_response_def n)
  from detection [of example_backend "initial example_api_client" "''f1''" "[''f2'']"
      "\<lparr>this = example_api_client, calls = [feed_request example_api_client ''f1''],
        console = []\<rparr>" example_feed "JStr ''country-123''"] a b
  have 1: "detectCountryFromFeeds example_backend [''f1'', ''f2''] (initial example_api_client) =
     (\<lparr>this = example_api_client, calls = [feed_request example_api_client ''f1''],
       console = []\<rparr>, JStr ''country-123'')" by simp
  from detection [of example_backend "initial example_pin_client" "''missing''" "[]"
      "\<lparr>this = example_pin_client, calls = [feed_request example_pin_client ''missing''],
        console = []\<rparr>" _ _ _ "Error ''Failed to get feed: 404''"] c
  have 2: "detectCountryFromFeeds example_backend [''missing''] (initial example_pin_client) =
     (\<lparr>this = example_pin_client, calls = [feed_request example_pin_client ''missing''],
       console = [Error ''Failed to get feed: 404'']\<rparr>, JNull)" by simp
  from 1 2 show ?thesis by simp
qed

text \<open>
  C4, as stated, fails on a record whose country field is present and empty: the lookup
  succeeds, the record has the field \<^verbatim>\<open>fd_country_id\<close> with the value \<^verbatim>\<open>""\<close>, and
  detection returns null, not that value.
\<close>

theorem detection_counterexample:
  "snd (getFeedById (always (Resolved (json_response blank_feed))) ''f1''
          (initial example_api_client)) = Inr blank_feed
   \<and> map_of [(''feed_id'', JStr ''f1''), (''fd_country_id'', JStr [])] ''fd_country_id'' =
       Some (JStr [])
   \<and> getProp blank_feed ''fd_country_id'' = Inr (JStr [])
   \<and> snd (detectCountryFromFeeds (always (Resolved (json_response blank_feed))) [''f1'']
            (initial example_api_client)) = JNull
   \<and> snd (detectCountryFromFeeds (always (Resolved (json_response blank_feed))) [''f1'']
            (initial example_api_client)) \<noteq> JStr []"
  by (simp add: detectCountryFromFeeds_def getFeedById_def fetch_def initial_def always_def
      json_response_def blank_feed_def js_or_def)

subsection \<open>Diet evaluation with a detected country\<close>

text \<open>
  C1. Take an ApiKey-mode client and a call of evaluateDiet with a non-empty feed list and
  no country id. The first outbound call is the lookup of the first feed id, and it is the
  only call of the detection. If the detection yields a country id, evaluateDiet makes
  exactly one more call, in that order: a POST to the evaluation endpoint whose body
  carries the detected country id and the simulation id \<^verbatim>\<open>eval-\<close> followed by the clock
  value. If it yields none, evaluateDiet fails with the country-required error and the
  lookup remains the only call.
\<close>

theorem evaluate_detects_country:
  assumes mode: "api_key_mode (this s)"
      and nocountry: "\<not> truthy_str countryId"
      and feeds: "feedEvaluation = item # rest"
      and det: "detectCountryFromFeeds net (map FeedEvaluationItem.feed_id feedEvaluation) s =
                  (s1, detected)"
  shows "calls s1 = calls s @ [feed_request (this s) (FeedEvaluationItem.feed_id item)]
       \<and> (truthy detected \<longrightarrow>
            (\<exists>rq r. calls (fst (evaluateDiet net now cattleInfo feedEvaluation countryId cur
                                   userId s)) =
                      calls s @ [feed_request (this s) (FeedEvaluationItem.feed_id item), rq]
                 \<and> url rq = baseUrl (this s) @ ''/diet-evaluation-working/''
                 \<and> method rq = POST
                 \<and> body rq = Some (EvaluationBody r)
                 \<and> DietEvaluationRequest.country_id r = detected
                 \<and> DietEvaluationRequest.simulation_id r = ''eval-'' @ string_of_nat now))
       \<and> (\<not> truthy detected \<longrightarrow>
            evaluateDiet net now cattleInfo feedEvaluation countryId cur userId s =
              (s1, Inl country_required))"
proof -
  let ?first = "feed_request (this s) (FeedEvaluationItem.feed_id item)"
  let ?run = "evaluateDiet net now cattleInfo feedEvaluation countryId cur userId s"
  from det feeds
    detect_state [of net "FeedEvaluationItem.feed_id item" "map FeedEvaluationItem.feed_id rest" s]
  have c1: "calls s1 = calls s @ [?first]" and t1: "this s1 = this s" by simp_all
  have id: "evaluateDiet_identity net feedEvaluation countryId cur userId s =
      (if truthy detected then
         (s1, Inr (js_or (str_val userId) (JStr getServiceAccountUserId), detected,
                   js_or (str_val cur) (JStr ''USD'')))
       else (s1, Inl country_required))"
    using mode nocountry det by (simp add: evaluateDiet_identity_def api_key_mode_def)
  show ?thesis
  proof (intro conjI impI)
    show "calls s1 = calls s @ [?first]" by (rule c1)
  next
    assume "\<not> truthy detected"
    with id show "?run = (s1, Inl country_required)" by (simp add: evaluateDiet_def)
  next
    assume d: "truthy detected"
    let ?rq = "evaluation_request (this s1) now cattleInfo feedEvaluation
                 (js_or (str_val userId) (JStr getServiceAccountUserId)) detected
                 (js_or (str_val cur) (JStr ''USD''))"
    have "fst ?run = fst (fetch net ?rq s1)"
      using id d by (simp add: evaluateDiet_def split: prod.splits sum.splits)
    then have "calls (fst ?run) = calls s @ [?first, ?rq]"
      using c1 by (simp add: fetch_def)
    moreover have "url ?rq = baseUrl (this s) @ ''/diet-evaluation-working/''"
      and "method ?rq = POST"
      using t1 by (simp_all add: evaluation_request_def)
    moreover have "\<exists>r. body ?rq = Some (EvaluationBody r)
                 \<and> DietEvaluationRequest.country_id r = detected
                 \<and> DietEvaluationRequest.simulation_id r = ''eval-'' @ string_of_nat now"
      by (simp add: evaluation_request_def)
    ultimately show "\<exists>rq r. calls (fst ?run) = calls s @ [?first, rq]
                 \<and> url rq = baseUrl (this s) @ ''/diet-evaluation-working/''
                 \<and> method rq = POST
                 \<and> body rq = Some (EvaluationBody r)
                 \<and> DietEvaluationRequest.country_id r = detected
                 \<and> DietEvaluationRequest.simulation_id r = ''eval-'' @ string_of_nat now"
      by blast
  qed
qed

theorem evaluate_detects_country_witness:
  "(\<exists>rq r. calls (fst (evaluateDiet example_backend 1700000000123 example_cattle [example_item]
                        None None None (initial example_api_client))) =
             [feed_request example_api_client ''f1'', rq]
         \<and> url rq = ''http://test-api.com/diet-evaluation-working/''
         \<and> method rq = POST
         \<and> body rq = Some (EvaluationBody r)
         \<and> DietEvaluationRequest.country_id r = JStr ''country-123''
         \<and> DietEvaluationRequest.simulation_id r = ''eval-1700000000123'')
   \<and> evaluateDiet (always (Resolved (json_response blank_feed))) 1700000000123 example_cattle
        [example_item] None None None (initial example_api_client) =
       (\<lparr>this = example_api_client, calls = [feed_request example_api_client ''f1''],
         console = []\<rparr>, Inl country_required)"
proof -
  have n: "string_of_nat 1700000000123 = ''1700000000123''"
    by (simp add: string_of_nat.simps digit_char_def)
  have mode: "api_key_mode (this (initial example_api_client))"
    by (simp add: api_key_mode_def initial_def example_api_client_def)
  have nc: "\<not> truthy_str None" by simp
  have fs: "[example_item] = example_item # []" by simp
  have d1: "detectCountryFromFeeds example_backend
              (map FeedEvaluationItem.feed_id [example_item]) (initial example_api_client) =
            (\<lparr>this = example_api_client, calls = [feed_request example_api_client ''f1''],
              console = []\<rparr>, JStr ''country-123'')"
    by (simp add: detectCountryFromFeeds_def getFeedById_def fetch_def initial_def
        feed_request_def example_backend_def example_api_client_def json_response_def
        example_feed_def example_item_def js_or_def)
  have d2: "detectCountryFromFeeds (always (Resolved (json_response blank_feed)))
              (map FeedEvaluationItem.feed_id [example_item]) (initial example_api_client) =
            (\<lparr>this = example_api_client, calls = [feed_request example_api_client ''f1''],
              console = []\<rparr>, JNull)"
    by (simp add: detectCountryFromFeeds_def getFeedById_def fetch_def initial_def
        feed_request_def always_def example_api_client_def json_response_def
        blank_feed_def example_item_def js_or_def)
  have i: "this (initial example_api_client) = example_api_client"
    "calls (initial example_api_client) = []"
    "baseUrl example_api_client = ''http://test-api.com''"
    "FeedEvaluationItem.feed_id example_item = ''f1''"
    by (simp_all add: initial_def example_api_client_def example_item_def)
  from evaluate_detects_country [OF mode nc fs d1, of 1700000000123 example_cattle None None]
  have 1: "\<exists>rq r. calls (fst (evaluateDiet example_backend 1700000000123 example_cattle
                        [example_item] None None None (initial example_api_client))) =
             [feed_request example_api_client ''f1'', rq]
         \<and> url rq = ''http://test-api.com/diet-evaluation-working/''
         \<and> method rq = POST
         \<and> body rq = Some (EvaluationBody r)
         \<and> DietEvaluationRequest.country_id r = JStr ''country-123''
         \<and> DietEvaluationRequest.simulation_id r = ''eval-1700000000123''"
    by (simp add: i n)
  from evaluate_detects_country [OF mode nc fs d2, of 1700000000123 example_cattle None None]
  have 2: "evaluateDiet (always (Resolved (json_response blank_feed))) 1700000000123
        example_cattle [example_item] None None None (initial example_api_client) =
       (\<lparr>this = example_api_client, calls = [feed_request example_api_client ''f1''],
         console = []\<rparr>, Inl country_required)"
    by simp
  from 1 2 show ?thesis by simp
qed

subsection \<open>The user id of a diet request\<close>


lemma user_ids_login [simp]: "request_user_id (login_request c) = None"
  by (simp add: login_request_def request_user_id_def)

lemma user_ids_feed [simp]: "request_user_id (feed_request c f) = None"
  by (simp add: feed_request_def request_user_id_def)

lemma user_ids_recommendation [simp]:
  "request_user_id (recommendation_request c now ci fs u cid) = Some u"
  by (simp add: recommendation_request_def request_user_id_def)

lemma user_ids_evaluation [simp]:
  "request_user_id (evaluation_request c now ci fe u cid cur) = Some u"
  by (simp add: evaluation_request_def request_user_id_def)

lemma truthy_str_val [simp]: "truthy (str_val a) = truthy_str a"
  by (cases a) simp_all



















end
